theory Spec2Isabelle
  imports Complex_Main
begin

section \<open>The ArduPilot tool server: data model\<close>

text \<open>
  The six tool functions of \<^verbatim>\<open>ardupilot_mcp_server.py\<close> drive a pymavlink connection
  object. The library is outside the repository, so it is a parameter of the model: a
  record of replies, one per library call, which plays the part of a fake transport.
  Within one tool invocation every library method is called at most once with given
  arguments, so a reply that depends on the arguments only is as general as one that
  depends on the whole history; the one attribute that is read repeatedly, the flight
  mode in the confirmation loop of \<^verbatim>\<open>change_mode\<close>, is a function of the clock.

  The built-in \<^verbatim>\<open>str.upper\<close> is outside the repository as well, and its case mapping covers
  all of Unicode; it is a parameter too, the field \<open>r_upper\<close>, so that every theorem about
  \<^verbatim>\<open>change_mode\<close> holds for whatever \<^verbatim>\<open>str.upper\<close> returns. A Python string is the list of
  the bytes of its UTF-8 encoding.

  Python floats are idealised as rationals. The clock is a counter of milliseconds that
  only \<^verbatim>\<open>time.sleep\<close> advances, by the requested duration. Timeouts are kept in seconds,
  as the source writes them. Output to the console (\<^verbatim>\<open>print\<close>) is left out.
\<close>

type_synonym pyfloat = rat

text \<open>
  A raised Python exception with its \<^verbatim>\<open>str(e)\<close>. \<^verbatim>\<open>except Exception\<close> catches the
  first kind only; the second stands for \<^verbatim>\<open>KeyboardInterrupt\<close>, \<^verbatim>\<open>SystemExit\<close> and the like.
\<close>

datatype py_exn = PyException string | PyBaseException string

text \<open>What a call does: it returns a value, raises, or never comes back.\<close>

datatype 'a outcome = Returns 'a | Raises py_exn | Blocks

subsection \<open>MAVLink messages and constants\<close>

record heartbeat =
  system_status :: int

record command_ack =
  result :: int

record global_position_int =
  lat :: int
  lon :: int
  alt :: int
  relative_alt :: int
  hdg :: int
  vx :: int
  vy :: int
  vz :: int

text \<open>The arguments of \<^verbatim>\<open>conn.mav.command_long_send\<close>, in the order of the call.\<close>

record command_long =
  target_system :: int
  target_component :: int
  command :: int
  confirmation :: int
  param1 :: pyfloat
  param2 :: pyfloat
  param3 :: pyfloat
  param4 :: pyfloat
  param5 :: pyfloat
  param6 :: pyfloat
  param7 :: pyfloat

text \<open>
  \<^verbatim>\<open>mavutil.mavlink.MAV_CMD_NAV_TAKEOFF\<close> and \<^verbatim>\<open>mavutil.mavlink.MAV_RESULT_ACCEPTED\<close>,
  with the values of the MAVLink common message set. No general theorem below depends on
  the values.
\<close>

definition MAV_CMD_NAV_TAKEOFF :: int where
  "MAV_CMD_NAV_TAKEOFF = 22"

definition MAV_RESULT_ACCEPTED :: int where
  "MAV_RESULT_ACCEPTED = 0"

subsection \<open>Returned texts and values\<close>

text \<open>
  The strings the tools return are Japanese texts, some with a value formatted into them.
  Each literal of the source is one constructor, carrying the formatted values:
  \<^item> \<open>HeartbeatTimeout\<close>: lines 39 and 67, the connection to ArduPilot timed out;
  \<^item> \<open>Armed\<close>: line 42; \<open>ArmFailed s\<close>: line 44, with \<^verbatim>\<open>str(e)\<close> and the advice to check
    the connection settings;
  \<^item> \<open>Disarmed\<close>: line 56;
  \<^item> \<open>TakeoffRejected\<close>: line 99; \<open>TakeoffStarted a\<close>: line 101, with the altitude;
  \<^item> \<open>InvalidMode m\<close>: line 113, with the mode as given;
  \<^item> \<open>ModeChanged m\<close>: line 122, with the uppercased mode;
  \<^item> \<open>ModeUnconfirmed m\<close>: line 125, with the flight mode read last;
  \<^item> \<open>NoPosition\<close>: line 164, the value under the key \<^verbatim>\<open>error\<close>.
\<close>

datatype reply_text =
    HeartbeatTimeout
  | Armed
  | ArmFailed string
  | Disarmed
  | TakeoffRejected
  | TakeoffStarted pyfloat
  | InvalidMode string
  | ModeChanged string
  | ModeUnconfirmed string
  | NoPosition

text \<open>Python values found in the returned dictionaries; a dictionary keeps its key order.\<close>

datatype py_value =
    PyNone
  | PyBool bool
  | PyInt int
  | PyFloat pyfloat
  | PyStr string
  | PyText reply_text
  | PyDict "(string \<times> py_value) list"

subsection \<open>The transport and the trace\<close>

text \<open>Everything a tool does to the outside, in order; \<open>Sleep\<close> is in milliseconds.\<close>

datatype event =
    MavlinkConnection
  | WaitHeartbeat "nat option"
  | ArducopterArm
  | MotorsArmedWait
  | ArducopterDisarm
  | MotorsDisarmedWait
  | ModeMapping
  | SetMode "int option"
  | CommandLongSend command_long
  | RecvMatch string nat
  | MotorsArmed
  | Close
  | Sleep nat

record transport =
  r_mavlink_connection :: "unit outcome"
  r_wait_heartbeat :: "nat option \<Rightarrow> heartbeat option outcome"
  r_arducopter_arm :: "unit outcome"
  r_motors_armed_wait :: "unit outcome"
  r_arducopter_disarm :: "unit outcome"
  r_motors_disarmed_wait :: "unit outcome"
  r_mode_mapping :: "(string \<rightharpoonup> int) outcome"
  r_set_mode :: "int option \<Rightarrow> unit outcome"
  r_command_long_send :: "command_long \<Rightarrow> unit outcome"
  r_recv_command_ack :: "nat \<Rightarrow> command_ack option outcome"
  r_recv_global_position_int :: "nat \<Rightarrow> global_position_int option outcome"
  r_motors_armed :: "bool outcome"
  r_close :: "unit outcome"
  r_flightmode :: "nat \<Rightarrow> string"
  r_target_system :: int
  r_target_component :: int
  r_messages_heartbeat :: "heartbeat option"
  r_upper :: "string \<Rightarrow> string"

record conn =
  clock :: nat
  calls :: "event list"

type_synonym 'a action = "conn \<Rightarrow> 'a outcome \<times> conn"

definition initial :: conn where
  "initial = \<lparr>clock = 0, calls = []\<rparr>"

subsection \<open>Sequencing, \<^verbatim>\<open>try\<close>/\<^verbatim>\<open>except\<close>/\<^verbatim>\<open>finally\<close>\<close>

definition ret :: "'a \<Rightarrow> 'a action" where
  "ret x c = (Returns x, c)"

definition and_then :: "'a action \<Rightarrow> ('a \<Rightarrow> 'b action) \<Rightarrow> 'b action" where
  "and_then m f c =
     (case m c of
        (Returns x, c') \<Rightarrow> f x c'
      | (Raises e, c') \<Rightarrow> (Raises e, c')
      | (Blocks, c') \<Rightarrow> (Blocks, c'))"

text \<open>A library call appends itself to the trace and gives the transport's reply.\<close>

definition invoke :: "event \<Rightarrow> 'a outcome \<Rightarrow> 'a action" where
  "invoke ev r c = (r, c\<lparr>calls := calls c @ [ev]\<rparr>)"

text \<open>\<^verbatim>\<open>except Exception as e\<close>: the handler gets \<^verbatim>\<open>str(e)\<close>.\<close>

definition try_except :: "'a action \<Rightarrow> (string \<Rightarrow> 'a action) \<Rightarrow> 'a action" where
  "try_except body handler c =
     (case body c of
        (Raises (PyException s), c') \<Rightarrow> handler s c'
      | (r, c') \<Rightarrow> (r, c'))"

text \<open>
  \<^verbatim>\<open>finally\<close>: the cleanup runs after a return and after a raise, not when the body never
  comes back; an exception of the cleanup replaces the body's outcome.
\<close>

definition try_finally :: "'a action \<Rightarrow> unit action \<Rightarrow> 'a action" where
  "try_finally body cleanup c =
     (case body c of
        (Blocks, c') \<Rightarrow> (Blocks, c')
      | (r, c') \<Rightarrow>
          (case cleanup c' of
             (Returns u, c'') \<Rightarrow> (r, c'')
           | (Raises e, c'') \<Rightarrow> (Raises e, c'')
           | (Blocks, c'') \<Rightarrow> (Blocks, c'')))"

subsection \<open>The library calls\<close>

definition wait_heartbeat :: "transport \<Rightarrow> nat option \<Rightarrow> heartbeat option action" where
  "wait_heartbeat v timeout = invoke (WaitHeartbeat timeout) (r_wait_heartbeat v timeout)"

definition arducopter_arm :: "transport \<Rightarrow> unit action" where
  "arducopter_arm v = invoke ArducopterArm (r_arducopter_arm v)"

definition motors_armed_wait :: "transport \<Rightarrow> unit action" where
  "motors_armed_wait v = invoke MotorsArmedWait (r_motors_armed_wait v)"

definition arducopter_disarm :: "transport \<Rightarrow> unit action" where
  "arducopter_disarm v = invoke ArducopterDisarm (r_arducopter_disarm v)"

definition motors_disarmed_wait :: "transport \<Rightarrow> unit action" where
  "motors_disarmed_wait v = invoke MotorsDisarmedWait (r_motors_disarmed_wait v)"

text \<open>
  \<^verbatim>\<open>conn.mode_mapping()\<close> gives the mode table, a dictionary from mode names to mode numbers;
  \<^verbatim>\<open>.get(name)\<close> on it is the application \<open>tbl name\<close>, with \<open>None\<close> for a missing key.
\<close>

definition mode_mapping :: "transport \<Rightarrow> (string \<rightharpoonup> int) action" where
  "mode_mapping v = invoke ModeMapping (r_mode_mapping v)"

definition set_mode :: "transport \<Rightarrow> int option \<Rightarrow> unit action" where
  "set_mode v mode_id = invoke (SetMode mode_id) (r_set_mode v mode_id)"

definition command_long_send :: "transport \<Rightarrow> command_long \<Rightarrow> unit action" where
  "command_long_send v cmd = invoke (CommandLongSend cmd) (r_command_long_send v cmd)"

definition recv_match_command_ack :: "transport \<Rightarrow> nat \<Rightarrow> command_ack option action" where
  "recv_match_command_ack v timeout =
     invoke (RecvMatch ''COMMAND_ACK'' timeout) (r_recv_command_ack v timeout)"

definition recv_match_global_position_int ::
  "transport \<Rightarrow> nat \<Rightarrow> global_position_int option action" where
  "recv_match_global_position_int v timeout =
     invoke (RecvMatch ''GLOBAL_POSITION_INT'' timeout) (r_recv_global_position_int v timeout)"

definition motors_armed :: "transport \<Rightarrow> bool action" where
  "motors_armed v = invoke MotorsArmed (r_motors_armed v)"

definition close :: "transport \<Rightarrow> unit action" where
  "close v = invoke Close (r_close v)"

text \<open>Reading the attribute \<^verbatim>\<open>conn.flightmode\<close>: the mode the vehicle reports now.\<close>

definition flightmode :: "transport \<Rightarrow> string action" where
  "flightmode v c = (Returns (r_flightmode v (clock c)), c)"

definition sleep :: "nat \<Rightarrow> unit action" where
  "sleep ms c = (Returns (), c\<lparr>clock := clock c + ms, calls := calls c @ [Sleep ms]\<rparr>)"

section \<open>The tools\<close>

text \<open>
  \<^verbatim>\<open>connect_to_ardupilot\<close> (lines 10 to 31): the connection object on success; on an
  exception it prints advice and raises the same exception again.
\<close>

definition connect_to_ardupilot :: "transport \<Rightarrow> unit action" where
  "connect_to_ardupilot v = invoke MavlinkConnection (r_mavlink_connection v)"

text \<open>\<^verbatim>\<open>arm\<close> (lines 35 to 46).\<close>

definition arm :: "transport \<Rightarrow> reply_text outcome \<times> conn" where
  "arm v =
     and_then (connect_to_ardupilot v) (\<lambda>_.
       try_finally
         (try_except
            (and_then (wait_heartbeat v (Some 10)) (\<lambda>hb.
               if hb = None then ret HeartbeatTimeout
               else and_then (arducopter_arm v) (\<lambda>_.
                    and_then (motors_armed_wait v) (\<lambda>_.
                    ret Armed))))
            (\<lambda>s. ret (ArmFailed s)))
         (close v))
     initial"

text \<open>\<^verbatim>\<open>disarm\<close> (lines 50 to 58).\<close>

definition disarm :: "transport \<Rightarrow> reply_text outcome \<times> conn" where
  "disarm v =
     and_then (connect_to_ardupilot v) (\<lambda>_.
       try_finally
         (and_then (wait_heartbeat v None) (\<lambda>_.
          and_then (arducopter_disarm v) (\<lambda>_.
          and_then (motors_disarmed_wait v) (\<lambda>_.
          ret Disarmed))))
         (close v))
     initial"

text \<open>\<^verbatim>\<open>takeoff\<close> (lines 62 to 103).\<close>

definition takeoff :: "transport \<Rightarrow> pyfloat \<Rightarrow> reply_text outcome \<times> conn" where
  "takeoff v altitude =
     and_then (connect_to_ardupilot v) (\<lambda>_.
       try_finally
         (and_then (wait_heartbeat v (Some 10)) (\<lambda>hb.
            if hb = None then ret HeartbeatTimeout
            else and_then (flightmode v) (\<lambda>current_mode.
                 and_then
                   (if current_mode \<noteq> ''GUIDED''
                    then and_then (mode_mapping v) (\<lambda>tbl.
                         and_then (set_mode v (tbl ''GUIDED'')) (\<lambda>_.
                         sleep 1000))
                    else ret ()) (\<lambda>_.
                 and_then (arducopter_arm v) (\<lambda>_.
                 and_then (motors_armed_wait v) (\<lambda>_.
                 and_then (sleep 1000) (\<lambda>_.
                 and_then
                   (command_long_send v
                      \<lparr>target_system = r_target_system v,
                       target_component = r_target_component v,
                       command = MAV_CMD_NAV_TAKEOFF,
                       confirmation = 0,
                       param1 = 0, param2 = 0, param3 = 0, param4 = 0,
                       param5 = 0, param6 = 0, param7 = altitude\<rparr>) (\<lambda>_.
                 and_then (recv_match_command_ack v 10) (\<lambda>msg.
                   case msg of
                     None \<Rightarrow> ret TakeoffRejected
                   | Some m \<Rightarrow>
                       if result m \<noteq> MAV_RESULT_ACCEPTED then ret TakeoffRejected
                       else ret (TakeoffStarted altitude))))))))))
         (close v))
     initial"

text \<open>\<^verbatim>\<open>mode.upper()\<close>: the built-in's result on the given name.\<close>

definition upper :: "transport \<Rightarrow> string \<Rightarrow> string" where
  "upper v s = r_upper v s"

text \<open>
  The confirmation loop of \<^verbatim>\<open>change_mode\<close> (lines 119 to 125), with the \<^verbatim>\<open>return\<close> that
  follows it: \<open>start_time\<close> is the clock read before the loop.
\<close>

function confirm_mode :: "transport \<Rightarrow> string \<Rightarrow> nat \<Rightarrow> conn \<Rightarrow> reply_text outcome \<times> conn" where
  "confirm_mode v target start_time c =
     (if int (clock c) - int start_time < 5000
      then if r_flightmode v (clock c) = target
           then (Returns (ModeChanged target), c)
           else confirm_mode v target start_time (snd (sleep 100 c))
      else (Returns (ModeUnconfirmed (r_flightmode v (clock c))), c))"
  by pat_completeness auto
termination
  by (relation "measure (\<lambda>(v, target, start_time, c). (start_time + 5000) - clock c)")
     (auto simp: sleep_def)

declare confirm_mode.simps [simp del]

text \<open>\<^verbatim>\<open>change_mode\<close> (lines 107 to 127).\<close>

definition change_mode :: "transport \<Rightarrow> string \<Rightarrow> reply_text outcome \<times> conn" where
  "change_mode v mode =
     and_then (connect_to_ardupilot v) (\<lambda>_.
       try_finally
         (and_then (wait_heartbeat v None) (\<lambda>_.
          and_then (mode_mapping v) (\<lambda>tbl.
            case tbl (upper v mode) of
              None \<Rightarrow> ret (InvalidMode mode)
            | Some mode_id \<Rightarrow>
                and_then (set_mode v (Some mode_id)) (\<lambda>_.
                  (\<lambda>c. confirm_mode v (upper v mode) (clock c) c)))))
         (close v))
     initial"

text \<open>\<^verbatim>\<open>get_status\<close> (lines 131 to 142).\<close>

definition get_status :: "transport \<Rightarrow> py_value outcome \<times> conn" where
  "get_status v =
     and_then (connect_to_ardupilot v) (\<lambda>_.
       try_finally
         (and_then (wait_heartbeat v None) (\<lambda>_.
          and_then (ret (r_messages_heartbeat v)) (\<lambda>heartbeat.
          and_then (motors_armed v) (\<lambda>a.
          and_then (flightmode v) (\<lambda>m.
          ret (PyDict
                [(''armed'', PyBool a),
                 (''mode'', PyStr m),
                 (''system_status'',
                    case heartbeat of
                      None \<Rightarrow> PyNone
                    | Some h \<Rightarrow> PyInt (system_status h))]))))))
         (close v))
     initial"

text \<open>\<^verbatim>\<open>get_position\<close> (lines 146 to 166).\<close>

definition get_position :: "transport \<Rightarrow> py_value outcome \<times> conn" where
  "get_position v =
     and_then (connect_to_ardupilot v) (\<lambda>_.
       try_finally
         (and_then (wait_heartbeat v None) (\<lambda>_.
          and_then (recv_match_global_position_int v 5) (\<lambda>position.
            case position of
              Some p \<Rightarrow>
                ret (PyDict
                      [(''latitude'', PyFloat (of_int (lat p) / 10000000)),
                       (''longitude'', PyFloat (of_int (lon p) / 10000000)),
                       (''altitude'', PyFloat (of_int (alt p) / 1000)),
                       (''relative_alt'', PyFloat (of_int (relative_alt p) / 1000)),
                       (''heading'', PyFloat (of_int (hdg p) / 100)),
                       (''velocity'',
                          PyDict [(''x'', PyInt (vx p)), (''y'', PyInt (vy p)), (''z'', PyInt (vz p))])])
            | None \<Rightarrow> ret (PyDict [(''error'', PyText NoPosition)]))))
         (close v))
     initial"

section \<open>Auxiliary notions for the properties\<close>

text \<open>How often the session has been released: the \<open>Close\<close> events of the trace.\<close>

definition closes :: "conn \<Rightarrow> nat" where
  "closes c = count_list (calls c) Close"

definition keeps_closes :: "'a action \<Rightarrow> bool" where
  "keeps_closes m = (\<forall>c. closes (snd (m c)) = closes c)"

text \<open>
  A run releases its session at most once, and a run that comes back (with a value or an
  exception) has released it exactly once if the session was acquired and not at all if
  the connection could not be made.
\<close>

definition released_once :: "transport \<Rightarrow> 'a outcome \<times> conn \<Rightarrow> bool" where
  "released_once v r =
     (closes (snd r) \<le> 1 \<and>
      (fst r \<noteq> Blocks \<longrightarrow>
         closes (snd r) = (if r_mavlink_connection v = Returns () then 1 else 0)))"

text \<open>The events that send a command to the vehicle.\<close>

fun is_command :: "event \<Rightarrow> bool" where
  "is_command ArducopterArm = True"
| "is_command ArducopterDisarm = True"
| "is_command (SetMode m) = True"
| "is_command (CommandLongSend cmd) = True"
| "is_command ev = False"

text \<open>
  What \<^verbatim>\<open>str.upper\<close> does to a name of ASCII characters: the letters \<open>a\<close> to \<open>z\<close> become
  \<open>A\<close> to \<open>Z\<close>. The concrete runs below use it on such names only, \<open>guided\<close> and
  \<open>bogus\<close>; it says nothing about \<^verbatim>\<open>str.upper\<close> on other characters, which the general
  theorems cover through \<open>r_upper\<close>.
\<close>

definition ascii_upper_char :: "char \<Rightarrow> char" where
  "ascii_upper_char ch =
     (let n = (of_char ch :: nat)
      in if 97 \<le> n \<and> n \<le> 122 then char_of (n - 32) else ch)"

definition ascii_upper :: "string \<Rightarrow> string" where
  "ascii_upper s = map ascii_upper_char s"

text \<open>
  A simulated vehicle for the concrete runs: every call succeeds, the mode table knows
  \<open>STABILIZE\<close> and \<open>GUIDED\<close>, the vehicle reports \<open>GUIDED\<close> from 300 ms on, the
  acknowledgement is \<open>MAV_RESULT_ACCEPTED\<close>, and no heartbeat is cached.
\<close>

definition sim :: transport where
  "sim = \<lparr>r_mavlink_connection = Returns (),
          r_wait_heartbeat = (\<lambda>_. Returns (Some \<lparr>system_status = 4\<rparr>)),
          r_arducopter_arm = Returns (),
          r_motors_armed_wait = Returns (),
          r_arducopter_disarm = Returns (),
          r_motors_disarmed_wait = Returns (),
          r_mode_mapping = Returns [''STABILIZE'' \<mapsto> 0, ''GUIDED'' \<mapsto> 4],
          r_set_mode = (\<lambda>_. Returns ()),
          r_command_long_send = (\<lambda>_. Returns ()),
          r_recv_command_ack = (\<lambda>_. Returns (Some \<lparr>result = 0\<rparr>)),
          r_recv_global_position_int =
            (\<lambda>_. Returns (Some \<lparr>lat = 123456780, lon = 1398765432, alt = 10000,
                                 relative_alt = 2500, hdg = 9000, vx = 1, vy = -2, vz = 3\<rparr>)),
          r_motors_armed = Returns True,
          r_close = Returns (),
          r_flightmode = (\<lambda>t. if t < 300 then ''STABILIZE'' else ''GUIDED''),
          r_target_system = 1,
          r_target_component = 1,
          r_messages_heartbeat = None,
          r_upper = ascii_upper\<rparr>"

text \<open>
  A name that only a case mapping beyond ASCII sends to a key of the table: \<^verbatim>\<open>str.upper\<close>
  turns the dotless i (U+0131, the bytes C4 B1) into \<open>I\<close>, hence this name into \<open>GUIDED\<close>.
\<close>

definition dotless_name :: string where
  "dotless_name = ''gu'' @ [CHR 0xC4, CHR 0xB1] @ ''ded''"

definition sim_unicode :: transport where
  "sim_unicode = sim\<lparr>r_upper := ascii_upper(dotless_name := ''GUIDED'')\<rparr>"

text \<open>Variations of it: no heartbeat arrives within the timeout.\<close>

definition silent :: transport where
  "silent = sim\<lparr>r_wait_heartbeat := (\<lambda>_. Returns None)\<rparr>"

text \<open>Every request to the vehicle raises an \<^verbatim>\<open>Exception\<close>, while heartbeats still arrive.\<close>

definition link_down :: transport where
  "link_down =
     sim\<lparr>r_arducopter_arm := Raises (PyException ''send failed''),
         r_arducopter_disarm := Raises (PyException ''send failed''),
         r_set_mode := (\<lambda>_. Raises (PyException ''send failed'')),
         r_motors_armed := Raises (PyException ''send failed''),
         r_recv_global_position_int := (\<lambda>_. Raises (PyException ''send failed''))\<rparr>"

text \<open>The vehicle answers the takeoff command with \<^verbatim>\<open>MAV_RESULT_FAILED\<close> (4).\<close>

definition rejecting :: transport where
  "rejecting = sim\<lparr>r_recv_command_ack := (\<lambda>_. Returns (Some \<lparr>result = 4\<rparr>))\<rparr>"

text \<open>The vehicle stays in \<open>LAND\<close> whatever is requested.\<close>

definition stuck :: transport where
  "stuck = sim\<lparr>r_flightmode := (\<lambda>_. ''LAND'')\<rparr>"

text \<open>No position message arrives within the timeout.\<close>

definition no_gps :: transport where
  "no_gps = sim\<lparr>r_recv_global_position_int := (\<lambda>_. Returns None)\<rparr>"

text \<open>The mode table has no entry \<open>GUIDED\<close>.\<close>

definition no_guided :: transport where
  "no_guided = sim\<lparr>r_mode_mapping := Returns [''STABILIZE'' \<mapsto> 0]\<rparr>"

section \<open>Session release\<close>

lemma keeps_closesD: "keeps_closes m \<Longrightarrow> closes (snd (m c)) = closes c"
  by (simp add: keeps_closes_def)

lemma keeps_ret: "keeps_closes (ret x)"
  by (simp add: keeps_closes_def ret_def)

lemma keeps_invoke: "ev \<noteq> Close \<Longrightarrow> keeps_closes (invoke ev r)"
  by (simp add: keeps_closes_def invoke_def closes_def)

lemma keeps_sleep: "keeps_closes (sleep ms)"
  by (simp add: keeps_closes_def sleep_def closes_def)

lemma keeps_flightmode: "keeps_closes (flightmode v)"
  by (simp add: keeps_closes_def flightmode_def)

lemma keeps_and_then:
  assumes "keeps_closes m" and "\<And>x. keeps_closes (f x)"
  shows "keeps_closes (and_then m f)"
  unfolding keeps_closes_def
proof
  fix c
  obtain r c' where mc: "m c = (r, c')" by (cases "m c")
  with assms(1) have c': "closes c' = closes c"
    using keeps_closesD[of m c] by simp
  show "closes (snd (and_then m f c)) = closes c"
  proof (cases r)
    case (Returns x)
    with mc c' assms(2)[of x] show ?thesis
      by (simp add: and_then_def keeps_closes_def)
  qed (use mc c' in \<open>simp_all add: and_then_def\<close>)
qed

lemma keeps_try_except:
  assumes "keeps_closes m" and "\<And>s. keeps_closes (h s)"
  shows "keeps_closes (try_except m h)"
  unfolding keeps_closes_def
proof
  fix c
  obtain r c' where mc: "m c = (r, c')" by (cases "m c")
  with assms(1) have c': "closes c' = closes c"
    using keeps_closesD[of m c] by simp
  show "closes (snd (try_except m h c)) = closes c"
    using mc c' assms(2)
    by (auto simp: try_except_def keeps_closes_def split: outcome.splits py_exn.splits)
qed

lemma keeps_if:
  "keeps_closes m \<Longrightarrow> keeps_closes n \<Longrightarrow> keeps_closes (if b then m else n)"
  by simp

lemma keeps_case_option:
  "keeps_closes m \<Longrightarrow> (\<And>x. keeps_closes (f x)) \<Longrightarrow> keeps_closes (case_option m f y)"
  by (cases y) simp_all

text \<open>The confirmation loop only sleeps and reads the flight mode.\<close>

lemma closes_confirm_mode: "closes (snd (confirm_mode v target start c)) = closes c"
proof (induction v target start c rule: confirm_mode.induct)
  case (1 v target start_time c)
  show ?case
  proof (cases "int (clock c) - int start_time < 5000 \<and> r_flightmode v (clock c) \<noteq> target")
    case True
    then have "closes (snd (confirm_mode v target start_time c)) = closes (snd (sleep 100 c))"
      using "1.IH" by (subst confirm_mode.simps) simp
    then show ?thesis by (simp add: sleep_def closes_def)
  next
    case False
    then show ?thesis by (subst confirm_mode.simps) auto
  qed
qed

lemma keeps_confirm_mode: "keeps_closes (\<lambda>c. confirm_mode v target (clock c) c)"
  by (simp add: keeps_closes_def closes_confirm_mode)

lemmas keeps_intros =
  keeps_and_then keeps_try_except keeps_ret keeps_sleep keeps_flightmode keeps_invoke
  keeps_if keeps_case_option keeps_confirm_mode

lemmas call_defs =
  wait_heartbeat_def arducopter_arm_def motors_armed_wait_def
  arducopter_disarm_def motors_disarmed_wait_def mode_mapping_def set_mode_def
  command_long_send_def recv_match_command_ack_def recv_match_global_position_int_def
  motors_armed_def

lemmas run_defs =
  and_then_def ret_def invoke_def try_finally_def try_except_def initial_def sleep_def
  flightmode_def close_def connect_to_ardupilot_def upper_def call_defs

text \<open>The shape all six tools share: connect, then the body under \<^verbatim>\<open>finally: conn.close()\<close>.\<close>

lemma session_closes:
  assumes "keeps_closes body"
  shows "closes (snd (and_then (connect_to_ardupilot v) (\<lambda>_. try_finally body (close v)) initial)) \<le> 1"
    and "fst (and_then (connect_to_ardupilot v) (\<lambda>_. try_finally body (close v)) initial) \<noteq> Blocks
         \<Longrightarrow> closes (snd (and_then (connect_to_ardupilot v) (\<lambda>_. try_finally body (close v)) initial))
             = (if r_mavlink_connection v = Returns () then 1 else 0)"
proof -
  let ?c0 = "initial\<lparr>calls := calls initial @ [MavlinkConnection]\<rparr>"
  obtain r c' where b: "body ?c0 = (r, c')" by (cases "body ?c0")
  with assms have c': "closes c' = 0"
    using keeps_closesD[of body ?c0] by (simp add: closes_def initial_def)
  show "closes (snd (and_then (connect_to_ardupilot v) (\<lambda>_. try_finally body (close v)) initial)) \<le> 1"
    using b c'
    by (cases "r_mavlink_connection v"; cases r; cases "r_close v")
       (simp_all add: and_then_def try_finally_def connect_to_ardupilot_def close_def invoke_def
          closes_def initial_def)
  show "closes (snd (and_then (connect_to_ardupilot v) (\<lambda>_. try_finally body (close v)) initial))
             = (if r_mavlink_connection v = Returns () then 1 else 0)"
    if "fst (and_then (connect_to_ardupilot v) (\<lambda>_. try_finally body (close v)) initial) \<noteq> Blocks"
    using b c' that
    by (cases "r_mavlink_connection v"; cases r; cases "r_close v")
       (simp_all add: and_then_def try_finally_def connect_to_ardupilot_def close_def invoke_def
          closes_def initial_def)
qed

lemma released_onceI:
  assumes "keeps_closes body"
  shows "released_once v (and_then (connect_to_ardupilot v) (\<lambda>_. try_finally body (close v)) initial)"
  unfolding released_once_def using session_closes[OF assms, of v] by blast

text \<open>
  Claim C1. Each of the six tools releases its session exactly once per acquired session
  on every exit path: whether the run returns a value, returns an error text early or
  lets an exception through, the trace holds exactly one \<open>Close\<close> when the connection was
  made, and none when it was not; no run closes twice.
\<close>

theorem release_exactly_once:
  "released_once v (arm v) \<and> released_once v (disarm v) \<and> released_once v (takeoff v altitude)
   \<and> released_once v (change_mode v mode) \<and> released_once v (get_status v)
   \<and> released_once v (get_position v)"
proof (intro conjI)
  show "released_once v (arm v)"
    unfolding arm_def call_defs by (intro released_onceI keeps_intros) simp_all
  show "released_once v (disarm v)"
    unfolding disarm_def call_defs by (intro released_onceI keeps_intros) simp_all
  show "released_once v (takeoff v altitude)"
    unfolding takeoff_def call_defs by (intro released_onceI keeps_intros) simp_all
  show "released_once v (change_mode v mode)"
    unfolding change_mode_def call_defs by (intro released_onceI keeps_intros) simp_all
  show "released_once v (get_status v)"
    unfolding get_status_def call_defs by (intro released_onceI keeps_intros) simp_all
  show "released_once v (get_position v)"
    unfolding get_position_def call_defs by (intro released_onceI keeps_intros) simp_all
qed

theorem release_exactly_once_witness:
  "r_mavlink_connection sim = Returns ()
   \<and> fst (arm sim) = Returns Armed \<and> closes (snd (arm sim)) = 1
   \<and> fst (disarm sim) = Returns Disarmed \<and> closes (snd (disarm sim)) = 1
   \<and> fst (takeoff sim 15) = Returns (TakeoffStarted 15) \<and> closes (snd (takeoff sim 15)) = 1
   \<and> fst (change_mode sim ''bogus'') = Returns (InvalidMode ''bogus'')
   \<and> closes (snd (change_mode sim ''bogus'')) = 1
   \<and> fst (get_status sim) \<noteq> Blocks \<and> closes (snd (get_status sim)) = 1
   \<and> fst (get_position sim) \<noteq> Blocks \<and> closes (snd (get_position sim)) = 1
   \<and> r_mavlink_connection silent = Returns ()
   \<and> fst (arm silent) = Returns HeartbeatTimeout \<and> closes (snd (arm silent)) = 1
   \<and> r_mavlink_connection link_down = Returns ()
   \<and> fst (disarm link_down) = Raises (PyException ''send failed'')
   \<and> closes (snd (disarm link_down)) = 1"
proof -
  have c: "r_mavlink_connection sim = Returns ()" "r_mavlink_connection silent = Returns ()"
    "r_mavlink_connection link_down = Returns ()"
    by (simp_all add: sim_def silent_def link_down_def)
  have e1: "fst (arm sim) = Returns Armed" by code_simp
  have e2: "fst (disarm sim) = Returns Disarmed" by code_simp
  have e3: "fst (takeoff sim 15) = Returns (TakeoffStarted 15)" by code_simp
  have e4: "fst (change_mode sim ''bogus'') = Returns (InvalidMode ''bogus'')" by code_simp
  have e5: "fst (get_status sim) \<noteq> Blocks" by code_simp
  have e6: "fst (get_position sim) \<noteq> Blocks" by code_simp
  have e7: "fst (arm silent) = Returns HeartbeatTimeout" by code_simp
  have e8: "fst (disarm link_down) = Raises (PyException ''send failed'')" by code_simp
  show ?thesis
    using release_exactly_once[of sim 15 "''bogus''"] release_exactly_once[of silent 15 "''bogus''"]
      release_exactly_once[of link_down 15 "''bogus''"] c e1 e2 e3 e4 e5 e6 e7 e8
    by (simp add: released_once_def)
qed

section \<open>The takeoff sequence\<close>

text \<open>
  Claim C4. Once the connection is made and a heartbeat has been seen, and as long as
  each step returns, takeoff does the following in this order: if and only if the flight
  mode is not \<open>GUIDED\<close>, it reads the mode table, requests the mode stored under
  \<open>GUIDED\<close> and sleeps 1000 ms; it arms, waits for the motors to be armed and sleeps
  1000 ms; it sends \<open>MAV_CMD_NAV_TAKEOFF\<close> with the altitude in \<open>param7\<close> and zero in
  the confirmation and the six other parameters; it waits for a \<open>COMMAND_ACK\<close> with a
  timeout of 10 seconds. The session is closed afterwards unless that wait never returns.
\<close>

theorem takeoff_sequence:
  assumes "r_mavlink_connection v = Returns ()"
    and "r_wait_heartbeat v (Some 10) = Returns (Some hb)"
    and "r_flightmode v 0 \<noteq> ''GUIDED'' \<Longrightarrow> r_mode_mapping v = Returns tbl"
    and "r_flightmode v 0 \<noteq> ''GUIDED'' \<Longrightarrow> r_set_mode v (tbl ''GUIDED'') = Returns ()"
    and "r_arducopter_arm v = Returns ()"
    and "r_motors_armed_wait v = Returns ()"
    and "\<And>cmd. r_command_long_send v cmd = Returns ()"
  shows "calls (snd (takeoff v altitude)) =
           [MavlinkConnection, WaitHeartbeat (Some 10)]
           @ (if r_flightmode v 0 \<noteq> ''GUIDED''
              then [ModeMapping, SetMode (tbl ''GUIDED''), Sleep 1000] else [])
           @ [ArducopterArm, MotorsArmedWait, Sleep 1000,
              CommandLongSend
                \<lparr>target_system = r_target_system v, target_component = r_target_component v,
                 command = MAV_CMD_NAV_TAKEOFF, confirmation = 0,
                 param1 = 0, param2 = 0, param3 = 0, param4 = 0, param5 = 0, param6 = 0,
                 param7 = altitude\<rparr>,
              RecvMatch ''COMMAND_ACK'' 10]
           @ (if r_recv_command_ack v 10 = Blocks then [] else [Close])"
proof (cases "r_flightmode v 0 = ''GUIDED''")
  case True
  with assms show ?thesis
    by (cases "r_recv_command_ack v 10"; cases "r_close v")
       (simp_all add: takeoff_def run_defs split: option.splits)
next
  case False
  with assms show ?thesis
    by (cases "r_recv_command_ack v 10"; cases "r_close v")
       (simp_all add: takeoff_def run_defs split: option.splits)
qed

theorem takeoff_sequence_witness:
  "r_mavlink_connection sim = Returns ()
   \<and> r_wait_heartbeat sim (Some 10) = Returns (Some \<lparr>system_status = 4\<rparr>)
   \<and> r_flightmode sim 0 \<noteq> ''GUIDED''
   \<and> calls (snd (takeoff sim 15)) =
       [MavlinkConnection, WaitHeartbeat (Some 10), ModeMapping, SetMode (Some 4), Sleep 1000,
        ArducopterArm, MotorsArmedWait, Sleep 1000,
        CommandLongSend
          \<lparr>target_system = 1, target_component = 1, command = 22, confirmation = 0,
           param1 = 0, param2 = 0, param3 = 0, param4 = 0, param5 = 0, param6 = 0,
           param7 = 15\<rparr>,
        RecvMatch ''COMMAND_ACK'' 10, Close]"
proof -
  let ?tbl = "[''STABILIZE'' \<mapsto> 0, ''GUIDED'' \<mapsto> (4::int)]"
  have h1: "r_mavlink_connection sim = Returns ()" by (simp add: sim_def)
  have h2: "r_wait_heartbeat sim (Some 10) = Returns (Some \<lparr>system_status = 4\<rparr>)"
    by (simp add: sim_def)
  have h3: "r_mode_mapping sim = Returns ?tbl" by (simp add: sim_def)
  have h4: "r_set_mode sim (?tbl ''GUIDED'') = Returns ()" by (simp add: sim_def)
  have h5: "r_arducopter_arm sim = Returns ()" by (simp add: sim_def)
  have h6: "r_motors_armed_wait sim = Returns ()" by (simp add: sim_def)
  have h7: "\<And>cmd. r_command_long_send sim cmd = Returns ()" by (simp add: sim_def)
  have m: "r_flightmode sim 0 \<noteq> ''GUIDED''" by (simp add: sim_def)
  have a: "r_recv_command_ack sim 10 \<noteq> Blocks" by (simp add: sim_def)
  have t: "r_target_system sim = 1" "r_target_component sim = 1" by (simp_all add: sim_def)
  show ?thesis
    using takeoff_sequence[of sim _ ?tbl 15, OF h1 h2 h3 h4 h5 h6 h7] h1 h2 m a t
    by (simp add: MAV_CMD_NAV_TAKEOFF_def)
qed

section \<open>The acknowledgement of the takeoff command\<close>

lemma takeoff_cases:
  assumes "takeoff v altitude = (r, c)"
  shows "(r = Returns (TakeoffStarted a) \<longrightarrow>
      a = altitude \<and>
      (\<exists>m. r_recv_command_ack v 10 = Returns (Some m) \<and> result m = MAV_RESULT_ACCEPTED))
   \<and> (RecvMatch ''COMMAND_ACK'' 10 \<in> set (calls c) \<longrightarrow>
        r_close v = Returns () \<longrightarrow>
        r =
          (case r_recv_command_ack v 10 of
             Returns None \<Rightarrow> Returns TakeoffRejected
           | Returns (Some m) \<Rightarrow>
               if result m = MAV_RESULT_ACCEPTED then Returns (TakeoffStarted altitude)
               else Returns TakeoffRejected
           | Raises e \<Rightarrow> Raises e
           | Blocks \<Rightarrow> Blocks))"
  using assms
  by (auto simp: takeoff_def run_defs split: outcome.splits option.splits if_splits)

text \<open>
  Claim C3. For every altitude: takeoff returns the text that the takeoff has started,
  with that altitude, only when the wait for \<open>COMMAND_ACK\<close> gave a message whose result
  is \<open>MAV_RESULT_ACCEPTED\<close>; and once the run has reached that wait (timeout 10 s) and
  the session closes normally, no message and a message with any other result both give
  the text that the takeoff command was rejected.
\<close>

theorem takeoff_acknowledgement:
  "(fst (takeoff v altitude) = Returns (TakeoffStarted a) \<longrightarrow>
      a = altitude \<and>
      (\<exists>m. r_recv_command_ack v 10 = Returns (Some m) \<and> result m = MAV_RESULT_ACCEPTED))
   \<and> (RecvMatch ''COMMAND_ACK'' 10 \<in> set (calls (snd (takeoff v altitude))) \<longrightarrow>
        r_close v = Returns () \<longrightarrow>
        fst (takeoff v altitude) =
          (case r_recv_command_ack v 10 of
             Returns None \<Rightarrow> Returns TakeoffRejected
           | Returns (Some m) \<Rightarrow>
               if result m = MAV_RESULT_ACCEPTED then Returns (TakeoffStarted altitude)
               else Returns TakeoffRejected
           | Raises e \<Rightarrow> Raises e
           | Blocks \<Rightarrow> Blocks))"
  using takeoff_cases[of v altitude "fst (takeoff v altitude)" "snd (takeoff v altitude)" a]
  by simp

theorem takeoff_acknowledgement_witness:
  "fst (takeoff sim 15) = Returns (TakeoffStarted 15)
   \<and> (\<exists>m. r_recv_command_ack sim 10 = Returns (Some m) \<and> result m = MAV_RESULT_ACCEPTED)
   \<and> RecvMatch ''COMMAND_ACK'' 10 \<in> set (calls (snd (takeoff rejecting 15)))
   \<and> r_close rejecting = Returns ()
   \<and> r_recv_command_ack rejecting 10 = Returns (Some \<lparr>result = 4\<rparr>)
   \<and> fst (takeoff rejecting 15) = Returns TakeoffRejected"
proof -
  have h1: "fst (takeoff sim 15) = Returns (TakeoffStarted 15)" by code_simp
  have h2: "RecvMatch ''COMMAND_ACK'' 10 \<in> set (calls (snd (takeoff rejecting 15)))"
    by code_simp
  have h3: "r_close rejecting = Returns ()" by (simp add: rejecting_def sim_def)
  have h4: "r_recv_command_ack rejecting 10 = Returns (Some \<lparr>result = 4\<rparr>)"
    by (simp add: rejecting_def)
  show ?thesis
    using takeoff_acknowledgement[of sim 15 15] takeoff_acknowledgement[of rejecting 15 15]
      h1 h2 h3 h4
    by (simp add: MAV_RESULT_ACCEPTED_def)
qed

section \<open>Changing the flight mode\<close>

text \<open>
  The confirmation loop in closed form. Started at the \<open>k\<close>-th poll, it sleeps 100 ms
  once for every poll that does not show the target, up to the poll at 4900 ms.
\<close>

lemma confirm_mode_run:
  assumes "k \<le> 50" and "clock c = s + 100 * k"
  shows "confirm_mode v target s c =
     (let n = length (takeWhile (\<lambda>j. r_flightmode v (s + 100 * j) \<noteq> target) [k..<50]) in
      (Returns (if k + n < 50 then ModeChanged target
                else ModeUnconfirmed (r_flightmode v (s + 5000))),
       c\<lparr>clock := s + 100 * (k + n), calls := calls c @ replicate n (Sleep 100)\<rparr>))"
  using assms
proof (induction "50 - k" arbitrary: k c)
  case 0
  then have k: "k = 50" by simp
  with "0.prems" show ?case
    by (subst confirm_mode.simps) simp
next
  case (Suc d)
  then have k: "k < 50" by simp
  then have upt: "[k..<50] = k # [Suc k..<50]" by (simp add: upt_conv_Cons)
  have cond: "int (clock c) - int s < 5000" using k Suc.prems by simp
  show ?case
  proof (cases "r_flightmode v (s + 100 * k) = target")
    case True
    with cond k Suc.prems upt show ?thesis
      by (subst confirm_mode.simps) simp
  next
    case False
    let ?c' = "snd (sleep 100 c)"
    have c': "clock ?c' = s + 100 * Suc k" using Suc.prems by (simp add: sleep_def)
    have "d = 50 - Suc k" using Suc.hyps(2) by simp
    from Suc.hyps(1)[OF this _ c'] k
    have IH: "confirm_mode v target s ?c' =
       (let n = length (takeWhile (\<lambda>j. r_flightmode v (s + 100 * j) \<noteq> target) [Suc k..<50]) in
        (Returns (if Suc k + n < 50 then ModeChanged target
                  else ModeUnconfirmed (r_flightmode v (s + 5000))),
         ?c'\<lparr>clock := s + 100 * (Suc k + n), calls := calls ?c' @ replicate n (Sleep 100)\<rparr>))"
      by simp
    have "confirm_mode v target s c = confirm_mode v target s ?c'"
      using cond False Suc.prems by (subst confirm_mode.simps) simp
    with IH False upt show ?thesis
      by (simp add: Let_def sleep_def)
  qed
qed

lemma takeWhile_length_less:
  "length (takeWhile P xs) < length xs \<longleftrightarrow> (\<exists>x\<in>set xs. \<not> P x)"
  by (induction xs) auto

lemma takeWhile_upt_less:
  "length (takeWhile P [0..<m]) < m \<longleftrightarrow> (\<exists>j<m. \<not> P j)"
  using takeWhile_length_less[of P "[0..<m]"] by auto

lemma takeWhile_upt_le: "length (takeWhile P [0..<m]) \<le> m"
  using length_takeWhile_le[of P "[0..<m]"] by simp

lemma takeWhile_upt_prefix:
  assumes "j < length (takeWhile P [0..<m])"
  shows "P j"
proof -
  have jm: "j < m" using assms takeWhile_upt_le[of P m] by simp
  have "takeWhile P [0..<m] ! j \<in> set (takeWhile P [0..<m])" using assms by simp
  then have "P (takeWhile P [0..<m] ! j)" by (rule set_takeWhileD[THEN conjunct2])
  moreover have "takeWhile P [0..<m] ! j = [0..<m] ! j" using assms by (rule takeWhile_nth)
  ultimately show "P j" using jm by simp
qed

lemma takeWhile_upt_stop:
  "length (takeWhile P [0..<m]) < m \<Longrightarrow> \<not> P (length (takeWhile P [0..<m]))"
  using nth_length_takeWhile[of P "[0..<m]"] by simp

text \<open>
  Claim C5. \<^verbatim>\<open>change_mode\<close> looks the uppercased name, whatever \<^verbatim>\<open>str.upper\<close> makes of
  the given one, up in the mode table. When the
  name is there and the calls before the loop return, it requests that mode and then
  reads the flight mode every 100 ms, at 0, 100, ..., 4900 ms, sleeping in between. If one
  of these up to 50 readings shows the uppercased name, it stops there and returns the
  success text with the uppercased name; otherwise, after 5000 ms, it returns normally the
  warning text with the flight mode read then. The session is closed in both cases.
\<close>

theorem change_mode_confirmation:
  assumes "r_mavlink_connection v = Returns ()"
    and "r_wait_heartbeat v None = Returns hb"
    and "r_mode_mapping v = Returns tbl"
    and "tbl (upper v mode) = Some mode_id"
    and "r_set_mode v (Some mode_id) = Returns ()"
    and "r_close v = Returns ()"
  shows "fst (change_mode v mode) =
           Returns (if \<exists>j<50. r_flightmode v (100 * j) = upper v mode
                    then ModeChanged (upper v mode)
                    else ModeUnconfirmed (r_flightmode v 5000))
         \<and> (\<exists>n\<le>50. calls (snd (change_mode v mode)) =
                        [MavlinkConnection, WaitHeartbeat None, ModeMapping, SetMode (Some mode_id)]
                        @ replicate n (Sleep 100) @ [Close]
                    \<and> (\<forall>j<n. r_flightmode v (100 * j) \<noteq> upper v mode)
                    \<and> (n < 50 \<longrightarrow> r_flightmode v (100 * n) = upper v mode))"
proof -
  let ?P = "\<lambda>j. r_flightmode v (100 * j) \<noteq> upper v mode"
  let ?n = "length (takeWhile ?P [0..<50])"
  let ?c = "\<lparr>clock = 0, calls = [MavlinkConnection, WaitHeartbeat None, ModeMapping,
                                   SetMode (Some mode_id)]\<rparr>"
  have run: "confirm_mode v (upper v mode) 0 ?c =
       (Returns (if ?n < 50 then ModeChanged (upper v mode)
                 else ModeUnconfirmed (r_flightmode v 5000)),
        ?c\<lparr>clock := 100 * ?n, calls := calls ?c @ replicate ?n (Sleep 100)\<rparr>)"
    using confirm_mode_run[of 0 ?c 0 v "upper v mode"] by (simp add: Let_def)
  have whole: "change_mode v mode =
       (Returns (if ?n < 50 then ModeChanged (upper v mode)
                 else ModeUnconfirmed (r_flightmode v 5000)),
        \<lparr>clock = 100 * ?n,
         calls = [MavlinkConnection, WaitHeartbeat None, ModeMapping, SetMode (Some mode_id)]
                 @ replicate ?n (Sleep 100) @ [Close]\<rparr>)"
    using assms run by (simp add: change_mode_def run_defs)
  have less: "?n < 50 \<longleftrightarrow> (\<exists>j<50. r_flightmode v (100 * j) = upper v mode)"
    using takeWhile_upt_less[of ?P 50] by simp
  have "?n \<le> 50" by (rule takeWhile_upt_le)
  moreover have "\<forall>j<?n. r_flightmode v (100 * j) \<noteq> upper v mode"
    using takeWhile_upt_prefix[of _ ?P 50] by blast
  moreover have "?n < 50 \<longrightarrow> r_flightmode v (100 * ?n) = upper v mode"
    using takeWhile_upt_stop[of ?P 50] by blast
  ultimately show ?thesis
    unfolding whole using less by (intro conjI exI[of _ ?n]) simp_all
qed

theorem change_mode_confirmation_witness:
  "upper sim ''guided'' = ''GUIDED''
   \<and> r_mode_mapping sim = Returns [''STABILIZE'' \<mapsto> 0, ''GUIDED'' \<mapsto> 4]
   \<and> r_flightmode sim 300 = ''GUIDED''
   \<and> fst (change_mode sim ''guided'') = Returns (ModeChanged ''GUIDED'')
   \<and> fst (change_mode stuck ''guided'') = Returns (ModeUnconfirmed ''LAND'')"
proof -
  let ?tbl = "[''STABILIZE'' \<mapsto> 0, ''GUIDED'' \<mapsto> (4::int)]"
  have u: "upper sim ''guided'' = ''GUIDED''" "upper stuck ''guided'' = ''GUIDED''"
    by code_simp+
  have t: "?tbl (upper sim ''guided'') = Some 4" "?tbl (upper stuck ''guided'') = Some 4"
    unfolding u by simp_all
  have s1: "r_mavlink_connection sim = Returns ()"
    and s2: "r_wait_heartbeat sim None = Returns (Some \<lparr>system_status = 4\<rparr>)"
    and s3: "r_mode_mapping sim = Returns ?tbl"
    and s5: "r_set_mode sim (Some 4) = Returns ()"
    and s6: "r_close sim = Returns ()"
    by (simp_all add: sim_def)
  have k1: "r_mavlink_connection stuck = Returns ()"
    and k2: "r_wait_heartbeat stuck None = Returns (Some \<lparr>system_status = 4\<rparr>)"
    and k3: "r_mode_mapping stuck = Returns ?tbl"
    and k5: "r_set_mode stuck (Some 4) = Returns ()"
    and k6: "r_close stuck = Returns ()"
    by (simp_all add: stuck_def sim_def)
  have seen: "\<exists>j<50. r_flightmode sim (100 * j) = ''GUIDED''"
    by (rule exI[of _ 3]) (simp add: sim_def)
  have never: "\<not> (\<exists>j<50. r_flightmode stuck (100 * j) = ''GUIDED'')"
    by (simp add: stuck_def)
  have at: "r_flightmode sim 300 = ''GUIDED''" "r_flightmode stuck 5000 = ''LAND''"
    by (simp_all add: sim_def stuck_def)
  show ?thesis
    using change_mode_confirmation[OF s1 s2 s3 t(1) s5 s6]
      change_mode_confirmation[OF k1 k2 k3 t(2) k5 k6] u s3 seen never at
    by simp
qed

text \<open>
  Claim C6. For every mode name whose uppercased form, whatever \<^verbatim>\<open>str.upper\<close> makes of
  the name, is not in the mode table, \<^verbatim>\<open>change_mode\<close> returns the invalid-mode text with the name as given, and its trace is
  the connection, the heartbeat wait, the read of the mode table and the close: no
  command is sent, in particular no mode change is requested.
\<close>

theorem change_mode_invalid:
  assumes "r_mavlink_connection v = Returns ()"
    and "r_wait_heartbeat v None = Returns hb"
    and "r_mode_mapping v = Returns tbl"
    and "tbl (upper v mode) = None"
    and "r_close v = Returns ()"
  shows "fst (change_mode v mode) = Returns (InvalidMode mode)
         \<and> calls (snd (change_mode v mode)) =
             [MavlinkConnection, WaitHeartbeat None, ModeMapping, Close]
         \<and> filter is_command (calls (snd (change_mode v mode))) = []"
  using assms by (simp add: change_mode_def run_defs)

theorem change_mode_invalid_witness:
  "upper sim ''bogus'' = ''BOGUS''
   \<and> r_mode_mapping sim = Returns [''STABILIZE'' \<mapsto> 0, ''GUIDED'' \<mapsto> 4]
   \<and> fst (change_mode sim ''bogus'') = Returns (InvalidMode ''bogus'')
   \<and> calls (snd (change_mode sim ''bogus'')) =
       [MavlinkConnection, WaitHeartbeat None, ModeMapping, Close]
   \<and> filter is_command (calls (snd (change_mode sim ''bogus''))) = []"
proof -
  let ?tbl = "[''STABILIZE'' \<mapsto> 0, ''GUIDED'' \<mapsto> (4::int)]"
  have u: "upper sim ''bogus'' = ''BOGUS''" by code_simp
  have t: "?tbl (upper sim ''bogus'') = None" unfolding u by simp
  have s1: "r_mavlink_connection sim = Returns ()"
    and s2: "r_wait_heartbeat sim None = Returns (Some \<lparr>system_status = 4\<rparr>)"
    and s3: "r_mode_mapping sim = Returns ?tbl"
    and s6: "r_close sim = Returns ()"
    by (simp_all add: sim_def)
  show ?thesis
    using change_mode_invalid[OF s1 s2 s3 t s6] u s3 by simp
qed

text \<open>
  The hypothesis is about the uppercased name: a name that \<^verbatim>\<open>str.upper\<close> sends to a key of
  the table is valid, also when its bytes are no ASCII spelling of the key.
\<close>

lemma change_mode_dotless_name:
  "fst (change_mode sim_unicode dotless_name) = Returns (ModeChanged ''GUIDED'')
   \<and> SetMode (Some 4) \<in> set (calls (snd (change_mode sim_unicode dotless_name)))"
  by code_simp

section \<open>Reading position and status\<close>

text \<open>
  Claim C7. When a position message arrives, \<^verbatim>\<open>get_position\<close> returns latitude and
  longitude as \<open>lat\<close> and \<open>lon\<close> divided by \<open>10\<^sup>7\<close>, altitude and relative altitude as
  \<open>alt\<close> and \<open>relative_alt\<close> divided by 1000, the heading as \<open>hdg\<close> divided by 100, and
  the three velocity components unchanged. The divisions are exact (floats are
  rationals here). With \<open>lat = 123456780\<close>, \<open>alt = 10000\<close> and \<open>hdg = 9000\<close> this gives
  12.345678, 10.0 and 90.0.
\<close>

theorem get_position_conversion:
  assumes "r_mavlink_connection v = Returns ()"
    and "r_wait_heartbeat v None = Returns hb"
    and "r_recv_global_position_int v 5 = Returns (Some p)"
    and "r_close v = Returns ()"
  shows "fst (get_position v) =
           Returns (PyDict
             [(''latitude'', PyFloat (of_int (lat p) / 10 ^ 7)),
              (''longitude'', PyFloat (of_int (lon p) / 10 ^ 7)),
              (''altitude'', PyFloat (of_int (alt p) / 1000)),
              (''relative_alt'', PyFloat (of_int (relative_alt p) / 1000)),
              (''heading'', PyFloat (of_int (hdg p) / 100)),
              (''velocity'',
                 PyDict [(''x'', PyInt (vx p)), (''y'', PyInt (vy p)), (''z'', PyInt (vz p))])])"
  using assms by (simp add: get_position_def run_defs)

theorem get_position_conversion_witness:
  "r_recv_global_position_int sim 5 =
     Returns (Some \<lparr>lat = 123456780, lon = 1398765432, alt = 10000, relative_alt = 2500,
                    hdg = 9000, vx = 1, vy = -2, vz = 3\<rparr>)
   \<and> fst (get_position sim) =
       Returns (PyDict
         [(''latitude'', PyFloat 12.345678),
          (''longitude'', PyFloat 139.8765432),
          (''altitude'', PyFloat 10.0),
          (''relative_alt'', PyFloat 2.5),
          (''heading'', PyFloat 90.0),
          (''velocity'', PyDict [(''x'', PyInt 1), (''y'', PyInt (-2)), (''z'', PyInt 3)])])"
proof -
  have s1: "r_mavlink_connection sim = Returns ()"
    and s2: "r_wait_heartbeat sim None = Returns (Some \<lparr>system_status = 4\<rparr>)"
    and s3: "r_recv_global_position_int sim 5 =
       Returns (Some \<lparr>lat = 123456780, lon = 1398765432, alt = 10000, relative_alt = 2500,
                      hdg = 9000, vx = 1, vy = -2, vz = 3\<rparr>)"
    and s4: "r_close sim = Returns ()"
    by (simp_all add: sim_def)
  show ?thesis
    using get_position_conversion[OF s1 s2 s3 s4] s3 by simp
qed

text \<open>
  Claim C8. When the wait for a position message (timeout 5 s) ends without a message,
  \<^verbatim>\<open>get_position\<close> returns the dictionary with the single key \<^verbatim>\<open>error\<close>; it does not raise.
\<close>

theorem get_position_no_telemetry:
  assumes "r_mavlink_connection v = Returns ()"
    and "r_wait_heartbeat v None = Returns hb"
    and "r_recv_global_position_int v 5 = Returns None"
    and "r_close v = Returns ()"
  shows "fst (get_position v) = Returns (PyDict [(''error'', PyText NoPosition)])
         \<and> calls (snd (get_position v)) =
             [MavlinkConnection, WaitHeartbeat None, RecvMatch ''GLOBAL_POSITION_INT'' 5, Close]"
  using assms by (simp add: get_position_def run_defs)

theorem get_position_no_telemetry_witness:
  "r_recv_global_position_int no_gps 5 = Returns None
   \<and> fst (get_position no_gps) = Returns (PyDict [(''error'', PyText NoPosition)])"
proof -
  have s1: "r_mavlink_connection no_gps = Returns ()"
    and s2: "r_wait_heartbeat no_gps None = Returns (Some \<lparr>system_status = 4\<rparr>)"
    and s3: "r_recv_global_position_int no_gps 5 = Returns None"
    and s4: "r_close no_gps = Returns ()"
    by (simp_all add: no_gps_def sim_def)
  show ?thesis
    using get_position_no_telemetry[OF s1 s2 s3 s4] s3 by simp
qed

text \<open>
  Claim C9. \<^verbatim>\<open>get_status\<close> returns a dictionary with exactly the keys \<^verbatim>\<open>armed\<close>, \<^verbatim>\<open>mode\<close>
  and \<^verbatim>\<open>system_status\<close>: the armed flag, the flight mode, and the system status of the
  cached heartbeat, which is \<^verbatim>\<open>None\<close> when no heartbeat is cached; that case does not
  raise.
\<close>

theorem get_status_record:
  assumes "r_mavlink_connection v = Returns ()"
    and "r_wait_heartbeat v None = Returns hb"
    and "r_motors_armed v = Returns a"
    and "r_close v = Returns ()"
  shows "fst (get_status v) =
           Returns (PyDict
             [(''armed'', PyBool a),
              (''mode'', PyStr (r_flightmode v 0)),
              (''system_status'',
                 case r_messages_heartbeat v of
                   None \<Rightarrow> PyNone
                 | Some h \<Rightarrow> PyInt (system_status h))])"
  using assms by (simp add: get_status_def run_defs)

theorem get_status_record_witness:
  "r_messages_heartbeat sim = None
   \<and> fst (get_status sim) =
       Returns (PyDict [(''armed'', PyBool True), (''mode'', PyStr ''STABILIZE''),
                        (''system_status'', PyNone)])"
proof -
  have s1: "r_mavlink_connection sim = Returns ()"
    and s2: "r_wait_heartbeat sim None = Returns (Some \<lparr>system_status = 4\<rparr>)"
    and s3: "r_motors_armed sim = Returns True"
    and s4: "r_close sim = Returns ()"
    and s5: "r_messages_heartbeat sim = None"
    and s6: "r_flightmode sim 0 = ''STABILIZE''"
    by (simp_all add: sim_def)
  show ?thesis
    using get_status_record[OF s1 s2 s3 s4] s5 s6 by simp
qed

section \<open>Failures and missing guards\<close>

text \<open>
  Claim C2. The claim is that no failure after the connection is made leaves any of the
  six tools as an exception. Only \<^verbatim>\<open>arm\<close> has an \<^verbatim>\<open>except Exception\<close> clause. On a vehicle
  whose requests raise, \<^verbatim>\<open>arm\<close> returns its error text, and each of the other five tools
  lets the exception through.
\<close>

theorem failure_not_caught:
  "fst (arm link_down) = Returns (ArmFailed ''send failed'')
   \<and> fst (disarm link_down) = Raises (PyException ''send failed'')
   \<and> fst (takeoff link_down 15) = Raises (PyException ''send failed'')
   \<and> fst (change_mode link_down ''guided'') = Raises (PyException ''send failed'')
   \<and> fst (get_status link_down) = Raises (PyException ''send failed'')
   \<and> fst (get_position link_down) = Raises (PyException ''send failed'')"
  by code_simp

text \<open>
  Claim C10. In \<^verbatim>\<open>takeoff\<close>, when the flight mode is not \<open>GUIDED\<close> and the mode table has
  no entry \<open>GUIDED\<close>, the missing entry is handed to the mode change as it is: the fourth
  event of the trace is the request of the mode \<^verbatim>\<open>None\<close>, and whatever the run returns,
  it is not the invalid-mode text.
\<close>

theorem takeoff_unguarded_lookup:
  assumes "r_mavlink_connection v = Returns ()"
    and "r_wait_heartbeat v (Some 10) = Returns (Some hb)"
    and "r_flightmode v 0 \<noteq> ''GUIDED''"
    and "r_mode_mapping v = Returns tbl"
    and "tbl ''GUIDED'' = None"
  shows "take 4 (calls (snd (takeoff v altitude))) =
           [MavlinkConnection, WaitHeartbeat (Some 10), ModeMapping, SetMode None]
         \<and> (\<forall>m. fst (takeoff v altitude) \<noteq> Returns (InvalidMode m))"
proof -
  obtain r c where rc: "takeoff v altitude = (r, c)" by (cases "takeoff v altitude")
  with assms show ?thesis
    by (auto simp: takeoff_def run_defs split: outcome.splits option.splits if_splits)
qed

theorem takeoff_unguarded_lookup_witness:
  "r_flightmode no_guided 0 \<noteq> ''GUIDED''
   \<and> r_mode_mapping no_guided = Returns [''STABILIZE'' \<mapsto> 0]
   \<and> take 4 (calls (snd (takeoff no_guided 15))) =
       [MavlinkConnection, WaitHeartbeat (Some 10), ModeMapping, SetMode None]
   \<and> fst (takeoff no_guided 15) \<noteq> Returns (InvalidMode ''GUIDED'')"
proof -
  let ?tbl = "[''STABILIZE'' \<mapsto> (0::int)]"
  have s1: "r_mavlink_connection no_guided = Returns ()"
    and s2: "r_wait_heartbeat no_guided (Some 10) = Returns (Some \<lparr>system_status = 4\<rparr>)"
    and s3: "r_flightmode no_guided 0 \<noteq> ''GUIDED''"
    and s4: "r_mode_mapping no_guided = Returns ?tbl"
    by (simp_all add: no_guided_def sim_def)
  have t: "?tbl ''GUIDED'' = None" by simp
  show ?thesis
    using takeoff_unguarded_lookup[OF s1 s2 s3 s4 t, of 15] s3 s4 by simp
qed

end
